theory Spec2Isabelle
  imports Main
begin

section \<open>Validators (frontend/src/utils/validators.ts)\<close>

text \<open>
  The validators apply anchored regular expressions with \<^verbatim>\<open>RegExp.prototype.test\<close>.
  Every pattern of the file that is modelled here has the shape
  \<^verbatim>\<open>^ class{lo,hi} class{lo,hi} ... $\<close>: a sequence of character classes, each
  with a repetition count. A class is a list of inclusive ranges of character codes
  (a single character \<open>c\<close> is the range \<open>(c, c)\<close>, \<^verbatim>\<open>\d\<close> is \<open>0-9\<close>);
  a piece is a class with its least and greatest number of repetitions
  (\<open>None\<close> for the unbounded \<^verbatim>\<open>+\<close>).

  A string is a list of characters. The patterns carry no flags, so \<^verbatim>\<open>$\<close>
  matches at the very end of the input only, and \<^verbatim>\<open>test\<close> keeps no position
  between calls.
\<close>

type_synonym char_class = "(char \<times> char) list"

definition in_class :: "char_class \<Rightarrow> char \<Rightarrow> bool" where
  "in_class cl c =
     list_ex (\<lambda>(lo, hi). (of_char lo :: nat) \<le> of_char c \<and> (of_char c :: nat) \<le> of_char hi) cl"

datatype piece = Piece char_class nat "nat option"

text \<open>
  \<open>regex_test ps s\<close>: the whole of \<open>s\<close> splits into consecutive blocks, the i-th
  block made of characters of the i-th class and of a permitted length. Backtracking
  in the engine finds a split whenever one exists, so the boolean result of
  \<^verbatim>\<open>test\<close> is the existence of a split.
\<close>

fun regex_test :: "piece list \<Rightarrow> string \<Rightarrow> bool" where
  "regex_test [] s = (s = [])"
| "regex_test (Piece cl lo hi # ps) s =
     list_ex (\<lambda>k. list_all (in_class cl) (take k s) \<and> regex_test ps (drop k s))
       [lo ..< Suc (case hi of None \<Rightarrow> length s | Some h \<Rightarrow> min h (length s))]"

text \<open>\<^verbatim>\<open>/^\+[1-9]\d{10,14}$/\<close>\<close>

definition validatePhoneNumber :: "string \<Rightarrow> bool" where
  "validatePhoneNumber phone =
     (let phoneRegex = [Piece [(CHR ''+'', CHR ''+'')] 1 (Some 1),
                        Piece [(CHR ''1'', CHR ''9'')] 1 (Some 1),
                        Piece [(CHR ''0'', CHR ''9'')] 10 (Some 14)]
      in regex_test phoneRegex phone)"

text \<open>\<^verbatim>\<open>/^\d+$/\<close> and \<^verbatim>\<open>/^[a-f0-9]{32}$/\<close>\<close>

definition validateApiCredentials :: "string \<Rightarrow> string \<Rightarrow> bool" where
  "validateApiCredentials apiId apiHash =
     (let apiIdRegex = [Piece [(CHR ''0'', CHR ''9'')] 1 None];
          apiHashRegex = [Piece [(CHR ''a'', CHR ''f''), (CHR ''0'', CHR ''9'')] 32 (Some 32)]
      in regex_test apiIdRegex apiId \<and> regex_test apiHashRegex apiHash)"

subsection \<open>The formats as the specification words them\<close>

definition is_digit :: "char \<Rightarrow> bool" where
  "is_digit c = (c \<in> set ''0123456789'')"

definition is_lower_hex :: "char \<Rightarrow> bool" where
  "is_lower_hex c = (c \<in> set ''0123456789abcdef'')"

text \<open>A leading \<open>+\<close>, a first digit 1 to 9, and 11 to 15 digits in total.\<close>

definition phone_spec :: "string \<Rightarrow> bool" where
  "phone_spec s =
     (case s of
        c0 # d # ds \<Rightarrow>
          c0 = CHR ''+'' \<and> d \<in> set ''123456789'' \<and> list_all is_digit ds \<and>
          11 \<le> length (d # ds) \<and> length (d # ds) \<le> 15
      | _ \<Rightarrow> False)"

text \<open>A non-empty all-digit id and a hash of exactly 32 lowercase hexadecimal characters.\<close>

definition api_credentials_spec :: "string \<Rightarrow> string \<Rightarrow> bool" where
  "api_credentials_spec apiId apiHash =
     (apiId \<noteq> [] \<and> list_all is_digit apiId \<and>
      length apiHash = 32 \<and> list_all is_lower_hex apiHash)"


section \<open>Browser state: localStorage, location, network\<close>

text \<open>
  \<^verbatim>\<open>localStorage\<close> is a map from keys to strings; \<^verbatim>\<open>getItem\<close> of a missing key is
  \<^verbatim>\<open>null\<close>, here \<open>None\<close>.
\<close>

type_synonym storage = "string \<rightharpoonup> string"

definition getItem :: "storage \<Rightarrow> string \<Rightarrow> string option" where
  "getItem st k = st k"

definition setItem :: "storage \<Rightarrow> string \<Rightarrow> string \<Rightarrow> storage" where
  "setItem st k v = st(k \<mapsto> v)"

definition removeItem :: "storage \<Rightarrow> string \<Rightarrow> storage" where
  "removeItem st k = st(k := None)"

text \<open>
  A request as it leaves the client: method, path, the fields of the JSON body (a field
  read from storage may be \<^verbatim>\<open>null\<close>) and the Authorization header, if one was attached.
\<close>

record request =
  req_method :: string
  req_url :: string
  req_body :: "(string \<times> string option) list"
  req_authorization :: "string option"

text \<open>
  The part of the browser that the code reads and writes: the storage, the last value
  assigned to \<^verbatim>\<open>window.location.href\<close> (\<open>None\<close> while nothing was assigned), and
  the requests sent so far, oldest first. Toast notifications are display only and are
  not kept.
\<close>

record world =
  localStorage :: storage
  location_href :: "string option"
  network :: "request list"

text \<open>JavaScript truthiness of a string-or-null and of an optional number.\<close>

definition truthy_string :: "string option \<Rightarrow> bool" where
  "truthy_string v = (case v of None \<Rightarrow> False | Some t \<Rightarrow> t \<noteq> [])"

definition truthy_number :: "int option \<Rightarrow> bool" where
  "truthy_number v = (case v of None \<Rightarrow> False | Some n \<Rightarrow> n \<noteq> 0)"

text \<open>\<^verbatim>\<open>s.replace(pat, rep)\<close> with a string pattern: the first occurrence only.\<close>

fun replace_first :: "string \<Rightarrow> string \<Rightarrow> string \<Rightarrow> string" where
  "replace_first pat rep [] = (if pat = [] then rep else [])"
| "replace_first pat rep (c # cs) =
     (if take (length pat) (c # cs) = pat then rep @ drop (length pat) (c # cs)
      else c # replace_first pat rep cs)"


section \<open>Gateway (frontend/src/services/api.ts)\<close>

text \<open>
  The payload interface \<^verbatim>\<open>AuthResponse\<close> of authService.ts, and the fields of a
  response body that the code reads: \<^verbatim>\<open>response.data.status\<close>,
  \<^verbatim>\<open>response.data.phone_code_hash\<close> and the truthiness of
  \<^verbatim>\<open>response.data.requires_2fa\<close> (Setup.tsx, where the body is untyped), and
  \<^verbatim>\<open>response.data.data\<close> (authService.ts, typed \<^verbatim>\<open>ApiResponse<AuthResponse>\<close>).
\<close>

record AuthResponse =
  status :: string
  message :: string
  requires_2fa :: bool
  user_id :: "int option"

record body =
  body_status :: "string option"
  body_phone_code_hash :: "string option"
  body_requires_2fa :: bool
  body_data :: AuthResponse

record response =
  http_status :: nat
  headers :: "string \<rightharpoonup> string"
  response_data :: body

text \<open>What the transport delivers for one request: nothing (timeout, no connection), or
  a response.\<close>

datatype reply = NoResponse | Reply response

text \<open>The rejection value of a request; \<open>TypeError\<close> is not raised by the modelled
  paths on bodies of the declared types.\<close>

datatype error = AxiosError "response option"

text \<open>The client library resolves a request on a status from 200 to 299 and rejects it
  otherwise (its default \<^verbatim>\<open>validateStatus\<close>).\<close>

definition is_2xx :: "response \<Rightarrow> bool" where
  "is_2xx r = (200 \<le> http_status r \<and> http_status r < 300)"

text \<open>Request interceptor: attach the bearer token when one is stored.\<close>

definition request_interceptor :: "world \<Rightarrow> request \<Rightarrow> request" where
  "request_interceptor w config =
     (let token = getItem (localStorage w) ''auth_token''
      in if truthy_string token
         then config\<lparr>req_authorization := Some (''Bearer '' @ (case token of Some t \<Rightarrow> t | None \<Rightarrow> []))\<rparr>
         else config)"

text \<open>Response interceptor, error branch. Every case but 401 only shows a toast.\<close>

definition response_error_interceptor :: "world \<Rightarrow> response option \<Rightarrow> world" where
  "response_error_interceptor w resp =
     (case resp of
        Some r \<Rightarrow>
          if http_status r = 401
          then w\<lparr>localStorage :=
                   removeItem (removeItem (removeItem (localStorage w) ''auth_token'')
                     ''telegram_api_id'') ''telegram_api_hash'',
                 location_href := Some ''/setup''\<rparr>
          else w
      | None \<Rightarrow> w)"

definition api_request :: "world \<Rightarrow> request \<Rightarrow> reply \<Rightarrow> world \<times> (error + response)" where
  "api_request w config rep =
     (let w1 = w\<lparr>network := network w @ [request_interceptor w config]\<rparr>
      in case rep of
           NoResponse \<Rightarrow> (response_error_interceptor w1 None, Inl (AxiosError None))
         | Reply r \<Rightarrow>
             if is_2xx r then (w1, Inr r)
             else (response_error_interceptor w1 (Some r), Inl (AxiosError (Some r))))"

definition api_post ::
  "world \<Rightarrow> string \<Rightarrow> (string \<times> string option) list \<Rightarrow> reply \<Rightarrow> world \<times> (error + response)" where
  "api_post w url json rep =
     api_request w \<lparr>req_method = ''POST'', req_url = url, req_body = json,
                    req_authorization = None\<rparr> rep"


section \<open>AuthService (frontend/src/services/authService.ts)\<close>

record AuthVerifyRequest =
  phone_number :: string
  phone_code_hash :: string
  code :: string
  api_id :: "string option"
  api_hash :: "string option"

record AuthPasswordRequest =
  pw_phone_number :: string
  pw_password :: string

definition verify_fields :: "AuthVerifyRequest \<Rightarrow> (string \<times> string option) list" where
  "verify_fields d =
     [(''phone_number'', Some (phone_number d)),
      (''phone_code_hash'', Some (phone_code_hash d)),
      (''code'', Some (code d)),
      (''api_id'', api_id d),
      (''api_hash'', api_hash d)]"

definition clearAuthData :: "world \<Rightarrow> world" where
  "clearAuthData w =
     w\<lparr>localStorage :=
         removeItem (removeItem (removeItem (removeItem (localStorage w) ''auth_token'')
           ''telegram_api_id'') ''telegram_api_hash'') ''user_data''\<rparr>"

definition isAuthenticated :: "world \<Rightarrow> bool" where
  "isAuthenticated w = truthy_string (getItem (localStorage w) ''auth_token'')"

definition getApiCredentials :: "world \<Rightarrow> string option \<times> string option" where
  "getApiCredentials w =
     (getItem (localStorage w) ''telegram_api_id'', getItem (localStorage w) ''telegram_api_hash'')"

definition storeApiCredentials :: "world \<Rightarrow> string \<Rightarrow> string \<Rightarrow> world" where
  "storeApiCredentials w apiId apiHash =
     w\<lparr>localStorage :=
         setItem (setItem (localStorage w) ''telegram_api_id'' apiId) ''telegram_api_hash'' apiHash\<rparr>"

definition startAuth :: "world \<Rightarrow> string \<Rightarrow> reply \<Rightarrow> world \<times> (error + AuthResponse)" where
  "startAuth w phoneNumber rep =
     (case api_post w ''/auth/telegram/start'' [(''phone_number'', Some phoneNumber)] rep of
        (w1, Inl e) \<Rightarrow> (w1, Inl e)
      | (w1, Inr resp) \<Rightarrow> (w1, Inr (body_data (response_data resp))))"

text \<open>Store the token of a successful verification. The stored value is the header
  with its first \<^verbatim>\<open>"Bearer "\<close> removed.\<close>

definition store_token :: "world \<Rightarrow> response \<Rightarrow> world" where
  "store_token w resp =
     (let token = headers resp ''authorization''
      in case token of
           Some t \<Rightarrow>
             if t \<noteq> []
             then w\<lparr>localStorage :=
                      setItem (localStorage w) ''auth_token'' (replace_first ''Bearer '' [] t)\<rparr>
             else w
         | None \<Rightarrow> w)"

definition verifyCode :: "world \<Rightarrow> AuthVerifyRequest \<Rightarrow> reply \<Rightarrow> world \<times> (error + AuthResponse)" where
  "verifyCode w d rep =
     (case api_post w ''/auth/telegram/verify'' (verify_fields d) rep of
        (w1, Inl e) \<Rightarrow> (w1, Inl e)
      | (w1, Inr resp) \<Rightarrow>
          (let payload = body_data (response_data resp)
           in (if status payload = ''authenticated'' \<and> truthy_number (user_id payload)
               then store_token w1 resp else w1,
               Inr payload)))"

definition verify2FA :: "world \<Rightarrow> AuthPasswordRequest \<Rightarrow> reply \<Rightarrow> world \<times> (error + AuthResponse)" where
  "verify2FA w d rep =
     (case api_post w ''/auth/telegram/2fa''
             [(''phone_number'', Some (pw_phone_number d)), (''password'', Some (pw_password d))] rep of
        (w1, Inl e) \<Rightarrow> (w1, Inl e)
      | (w1, Inr resp) \<Rightarrow>
          (let payload = body_data (response_data resp)
           in (if status payload = ''authenticated'' then store_token w1 resp else w1,
               Inr payload)))"

text \<open>\<^verbatim>\<open>await api.post("/auth/logout"); this.clearAuthData();\<close> A rejected request
  throws out of the \<^verbatim>\<open>await\<close>, and the cleanup after it is not reached.\<close>

definition logout :: "world \<Rightarrow> reply \<Rightarrow> world \<times> (error + unit)" where
  "logout w rep =
     (case api_post w ''/auth/logout'' [] rep of
        (w1, Inl e) \<Rightarrow> (w1, Inl e)
      | (w1, Inr resp) \<Rightarrow> (clearAuthData w1, Inr ()))"


section \<open>The setup wizard (frontend/src/pages/Setup.tsx)\<close>

text \<open>
  The steps of the wizard are the states of the handshake:
  \<open>Api\<close> is CredentialsPending, \<open>Phone\<close> PhonePending, \<open>Code\<close> CodePending,
  \<open>Password\<close> PasswordPending and \<open>Complete\<close> Authenticated.
\<close>

datatype step = Api | Phone | Code | Password | Complete

record SetupFormData =
  apiId :: string
  apiHash :: string
  phoneNumber :: string
  code_input :: string
  password :: string

text \<open>The component state. \<open>phoneCodeHash\<close> holds what the body carried, which is
  \<^verbatim>\<open>undefined\<close> (\<open>None\<close>) when the field was absent.\<close>

record Setup =
  step :: step
  formData :: SetupFormData
  loading :: bool
  phoneCodeHash :: "string option"

text \<open>The \<^verbatim>\<open>useState\<close> initial values.\<close>

definition Setup_initial :: Setup where
  "Setup_initial =
     \<lparr>step = Api,
      formData = \<lparr>apiId = [], apiHash = [], phoneNumber = [], code_input = [], password = []\<rparr>,
      loading = False,
      phoneCodeHash = Some []\<rparr>"

text \<open>
  Each handler takes the browser state and the component state and returns both as they
  are once the handler has run to its \<^verbatim>\<open>finally\<close> block. A handler that sends a
  request also takes the reply the transport delivers for it.
\<close>

definition handleApiSubmit :: "world \<times> Setup \<Rightarrow> world \<times> Setup" where
  "handleApiSubmit ws =
     (case ws of (w, s) \<Rightarrow>
        (w\<lparr>localStorage :=
             setItem (setItem (localStorage w) ''telegram_api_id'' (apiId (formData s)))
               ''telegram_api_hash'' (apiHash (formData s))\<rparr>,
         s\<lparr>step := Phone, loading := False\<rparr>))"

definition handlePhoneSubmit :: "world \<times> Setup \<Rightarrow> reply \<Rightarrow> world \<times> Setup" where
  "handlePhoneSubmit ws rep =
     (case ws of (w, s) \<Rightarrow>
        (case api_post w ''/auth/telegram/start''
                [(''phone_number'', Some (CHR ''+'' # phoneNumber (formData s)))] rep of
           (w1, Inr resp) \<Rightarrow>
             (w1,
              if body_status (response_data resp) = Some ''code_sent''
              then s\<lparr>phoneCodeHash := body_phone_code_hash (response_data resp),
                     step := Code, loading := False\<rparr>
              else if body_requires_2fa (response_data resp)
              then s\<lparr>step := Password, loading := False\<rparr>
              else s\<lparr>loading := False\<rparr>)
         | (w1, Inl e) \<Rightarrow> (w1, s\<lparr>loading := False\<rparr>)))"

definition handleCodeSubmit :: "world \<times> Setup \<Rightarrow> reply \<Rightarrow> world \<times> Setup" where
  "handleCodeSubmit ws rep =
     (case ws of (w, s) \<Rightarrow>
        (let apiId_stored = getItem (localStorage w) ''telegram_api_id'';
             apiHash_stored = getItem (localStorage w) ''telegram_api_hash''
         in case api_post w ''/auth/telegram/verify''
                   [(''phone_number'', Some (CHR ''+'' # phoneNumber (formData s))),
                    (''phone_code_hash'', phoneCodeHash s),
                    (''code'', Some (code_input (formData s))),
                    (''api_id'', apiId_stored),
                    (''api_hash'', apiHash_stored)] rep of
              (w1, Inr resp) \<Rightarrow>
                (w1,
                 if body_status (response_data resp) = Some ''authenticated''
                 then s\<lparr>step := Complete, loading := False\<rparr>
                 else if body_requires_2fa (response_data resp)
                 then s\<lparr>step := Password, loading := False\<rparr>
                 else s\<lparr>loading := False\<rparr>)
            | (w1, Inl e) \<Rightarrow> (w1, s\<lparr>loading := False\<rparr>)))"

definition handlePasswordSubmit :: "world \<times> Setup \<Rightarrow> reply \<Rightarrow> world \<times> Setup" where
  "handlePasswordSubmit ws rep =
     (case ws of (w, s) \<Rightarrow>
        (case api_post w ''/auth/telegram/2fa''
                [(''phone_number'', Some (CHR ''+'' # phoneNumber (formData s))),
                 (''password'', Some (password (formData s)))] rep of
           (w1, Inr resp) \<Rightarrow>
             (w1,
              if body_status (response_data resp) = Some ''authenticated''
              then s\<lparr>step := Complete, loading := False\<rparr>
              else s\<lparr>loading := False\<rparr>)
         | (w1, Inl e) \<Rightarrow> (w1, s\<lparr>loading := False\<rparr>)))"

text \<open>
  An assignment to \<^verbatim>\<open>window.location.href\<close> makes the browser load that address once
  the running handler has finished. The component state lives in memory only: the
  loaded page builds it again from the \<^verbatim>\<open>useState\<close> initial values. The storage
  survives the load.
\<close>

definition page_after :: "world \<times> Setup \<Rightarrow> world \<times> Setup" where
  "page_after ws =
     (case ws of (w, s) \<Rightarrow>
        (case location_href w of None \<Rightarrow> (w, s) | Some url \<Rightarrow> (w, Setup_initial)))"


section \<open>Outcomes of a request, and concrete inputs\<close>

text \<open>A request fails when no response arrives or the status is outside 200 to 299;
  the failure is an expired session when the status is 401.\<close>

definition is_failure :: "reply \<Rightarrow> bool" where
  "is_failure rep = (case rep of NoResponse \<Rightarrow> True | Reply r \<Rightarrow> \<not> is_2xx r)"

definition is_unauthorized :: "reply \<Rightarrow> bool" where
  "is_unauthorized rep = (case rep of NoResponse \<Rightarrow> False | Reply r \<Rightarrow> http_status r = 401)"

definition post_config :: "string \<Rightarrow> (string \<times> string option) list \<Rightarrow> request" where
  "post_config url json =
     \<lparr>req_method = ''POST'', req_url = url, req_body = json, req_authorization = None\<rparr>"

text \<open>A browser with an empty storage, and one holding a session and credentials.\<close>

definition w_empty :: world where
  "w_empty = \<lparr>localStorage = Map.empty, location_href = None, network = []\<rparr>"

definition w_session :: world where
  "w_session =
     \<lparr>localStorage = [''auth_token'' \<mapsto> ''tok'', ''telegram_api_id'' \<mapsto> ''12345678'',
                      ''telegram_api_hash'' \<mapsto> ''aaaaaaaaaaaaaaaaaaaaaaaaaaaaaaaa''],
      location_href = None, network = []\<rparr>"

definition form_of :: "string \<Rightarrow> string \<Rightarrow> string \<Rightarrow> string \<Rightarrow> string \<Rightarrow> SetupFormData" where
  "form_of i h p c pw = \<lparr>apiId = i, apiHash = h, phoneNumber = p, code_input = c, password = pw\<rparr>"

definition setup_at :: "step \<Rightarrow> SetupFormData \<Rightarrow> Setup" where
  "setup_at st fd = \<lparr>step = st, formData = fd, loading = False, phoneCodeHash = Some ''h1''\<rparr>"

definition payload_of :: "string \<Rightarrow> int option \<Rightarrow> AuthResponse" where
  "payload_of st uid = \<lparr>status = st, message = [], requires_2fa = False, user_id = uid\<rparr>"

text \<open>A response with the given HTTP status and headers whose body reports the given
  status, at both places the code reads it, and the given user id.\<close>

definition reply_of :: "nat \<Rightarrow> (string \<rightharpoonup> string) \<Rightarrow> string \<Rightarrow> int option \<Rightarrow> response" where
  "reply_of st hs s uid =
     \<lparr>http_status = st, headers = hs,
      response_data = \<lparr>body_status = Some s, body_phone_code_hash = None,
                        body_requires_2fa = False, body_data = payload_of s uid\<rparr>\<rparr>"


section \<open>Facts about the validators\<close>

lemma class_plus: "in_class [(CHR ''+'', CHR ''+'')] c \<longleftrightarrow> c = CHR ''+''"
  by (cases c) (simp add: in_class_def)

lemma class_digit: "in_class [(CHR ''0'', CHR ''9'')] c \<longleftrightarrow> is_digit c"
  by (cases c) (simp add: in_class_def is_digit_def)

lemma class_nonzero_digit: "in_class [(CHR ''1'', CHR ''9'')] c \<longleftrightarrow> c \<in> set ''123456789''"
  by (cases c) (simp add: in_class_def)

lemma class_lower_hex:
  "in_class [(CHR ''a'', CHR ''f''), (CHR ''0'', CHR ''9'')] c \<longleftrightarrow> is_lower_hex c"
  by (cases c) (simp add: in_class_def is_lower_hex_def)

text \<open>A piece that takes exactly one character.\<close>

lemma regex_test_single:
  "regex_test (Piece cl 1 (Some 1) # ps) s \<longleftrightarrow>
     (case s of [] \<Rightarrow> False | c # cs \<Rightarrow> in_class cl c \<and> regex_test ps cs)"
proof (cases s)
  case Nil
  then show ?thesis by (simp add: list_ex_iff)
next
  case (Cons c cs)
  have "[1 ..< Suc (min 1 (length (c # cs)))] = [1]"
    by (simp add: upt_rec)
  then show ?thesis using Cons by simp
qed

text \<open>The last piece of a pattern takes the whole rest.\<close>

lemma regex_test_last:
  "regex_test [Piece cl lo hi] s \<longleftrightarrow>
     lo \<le> length s \<and> (case hi of None \<Rightarrow> True | Some h \<Rightarrow> length s \<le> h) \<and>
     list_all (in_class cl) s"
  by (cases hi) (auto simp: list_ex_iff)

lemma list_all_pred_eq: "(\<And>x. P x = Q x) \<Longrightarrow> list_all P xs = list_all Q xs"
  by (simp add: list_all_iff)


section \<open>Facts about the storage and the gateway\<close>

lemma removeItem_get: "getItem (removeItem st k) k' = (if k' = k then None else getItem st k')"
  by (simp add: getItem_def removeItem_def)

lemma setItem_get: "getItem (setItem st k v) k' = (if k' = k then Some v else getItem st k')"
  by (simp add: getItem_def setItem_def)

lemma api_request_resolved:
  "is_2xx r \<Longrightarrow>
   api_request w config (Reply r) =
     (w\<lparr>network := network w @ [request_interceptor w config]\<rparr>, Inr r)"
  by (simp add: api_request_def Let_def)

lemma api_request_rejected:
  "\<not> is_2xx r \<Longrightarrow>
   api_request w config (Reply r) =
     (response_error_interceptor (w\<lparr>network := network w @ [request_interceptor w config]\<rparr>) (Some r),
      Inl (AxiosError (Some r)))"
  by (simp add: api_request_def Let_def)

lemma api_request_no_response:
  "api_request w config NoResponse =
     (w\<lparr>network := network w @ [request_interceptor w config]\<rparr>, Inl (AxiosError None))"
  by (simp add: api_request_def Let_def response_error_interceptor_def)

lemma not_2xx_401: "http_status r = 401 \<Longrightarrow> \<not> is_2xx r"
  by (simp add: is_2xx_def)

lemma interceptor_401:
  "http_status r = 401 \<Longrightarrow>
   response_error_interceptor w (Some r) =
     w\<lparr>localStorage := removeItem (removeItem (removeItem (localStorage w) ''auth_token'')
                     ''telegram_api_id'') ''telegram_api_hash'',
       location_href := Some ''/setup''\<rparr>"
  by (simp add: response_error_interceptor_def)

lemma interceptor_other:
  "http_status r \<noteq> 401 \<Longrightarrow> response_error_interceptor w (Some r) = w"
  by (simp add: response_error_interceptor_def)

lemma api_request_failure_cases:
  assumes "is_failure rep"
  obtains w1 e where "api_request w config rep = (w1, Inl e)"
    and "location_href w1 = location_href w \<and> localStorage w1 = localStorage w
         \<or> (\<exists>r. rep = Reply r \<and> http_status r = 401 \<and>
             localStorage w1 = removeItem (removeItem (removeItem (localStorage w) ''auth_token'')
                     ''telegram_api_id'') ''telegram_api_hash'')"
proof (cases rep)
  case NoResponse
  then show ?thesis using that by (simp add: api_request_no_response)
next
  case (Reply r)
  with assms have n: "\<not> is_2xx r" by (simp add: is_failure_def)
  show ?thesis
  proof (cases "http_status r = 401")
    case True
    then show ?thesis using that Reply n
      by (simp add: api_request_rejected interceptor_401)
  next
    case False
    then show ?thesis using that Reply n
      by (simp add: api_request_rejected interceptor_other)
  qed
qed

lemma api_post_network:
  "network (fst (api_post w url json rep)) =
     network w @ [request_interceptor w (post_config url json)]"
  by (cases rep)
     (simp_all add: api_post_def post_config_def api_request_def Let_def
        response_error_interceptor_def)

text \<open>A handler that sends a request leaves the browser as the request left it.\<close>

lemma handlePhoneSubmit_world:
  "fst (handlePhoneSubmit (w, s) rep) =
     fst (api_post w ''/auth/telegram/start''
            [(''phone_number'', Some (CHR ''+'' # phoneNumber (formData s)))] rep)"
  by (simp add: handlePhoneSubmit_def split: prod.splits sum.splits)

lemma handleCodeSubmit_world:
  "fst (handleCodeSubmit (w, s) rep) =
     fst (api_post w ''/auth/telegram/verify''
            [(''phone_number'', Some (CHR ''+'' # phoneNumber (formData s))),
             (''phone_code_hash'', phoneCodeHash s),
             (''code'', Some (code_input (formData s))),
             (''api_id'', getItem (localStorage w) ''telegram_api_id''),
             (''api_hash'', getItem (localStorage w) ''telegram_api_hash'')] rep)"
  by (simp add: handleCodeSubmit_def Let_def split: prod.splits sum.splits)

lemma handlePasswordSubmit_world:
  "fst (handlePasswordSubmit (w, s) rep) =
     fst (api_post w ''/auth/telegram/2fa''
            [(''phone_number'', Some (CHR ''+'' # phoneNumber (formData s))),
             (''password'', Some (password (formData s)))] rep)"
  by (simp add: handlePasswordSubmit_def split: prod.splits sum.splits)


text \<open>Requests that fail, and requests that succeed.\<close>

lemma api_post_failed:
  assumes "is_failure rep"
  obtains w1 e where "api_post w url json rep = (w1, Inl e)"
  using assms
  by (cases rep) (simp_all add: api_post_def api_request_def Let_def is_failure_def)

lemma api_post_resolved:
  "is_2xx r \<Longrightarrow>
   api_post w url json (Reply r) =
     (w\<lparr>network := network w @ [request_interceptor w (post_config url json)]\<rparr>, Inr r)"
  by (simp add: api_post_def post_config_def api_request_resolved)

lemma api_post_failure_session:
  assumes "is_failure rep" and "\<not> isAuthenticated w"
  shows "\<not> isAuthenticated (fst (api_post w url json rep))"
  unfolding api_post_def
  by (rule api_request_failure_cases [OF assms(1), of w
        "\<lparr>req_method = ''POST'', req_url = url, req_body = json, req_authorization = None\<rparr>"])
     (use assms(2) in \<open>auto simp: isAuthenticated_def removeItem_get truthy_string_def\<close>)

lemma api_post_failure_untouched:
  assumes "is_failure rep" and "\<not> is_unauthorized rep"
  shows "localStorage (fst (api_post w url json rep)) = localStorage w \<and>
         location_href (fst (api_post w url json rep)) = location_href w"
  using assms
  by (cases rep)
     (auto simp: api_post_def api_request_no_response api_request_rejected interceptor_other
        is_failure_def is_unauthorized_def)

lemma api_post_storage:
  "localStorage (fst (api_post w url json rep)) =
     (if is_unauthorized rep
      then removeItem (removeItem (removeItem (localStorage w) ''auth_token'')
             ''telegram_api_id'') ''telegram_api_hash''
      else localStorage w)"
proof (cases rep)
  case NoResponse
  then show ?thesis
    by (simp add: api_post_def api_request_no_response is_unauthorized_def)
next
  case (Reply r)
  show ?thesis
  proof (cases "is_2xx r")
    case True
    then have "http_status r \<noteq> 401" by (auto simp: is_2xx_def)
    with True Reply show ?thesis
      by (simp add: api_post_def api_request_resolved is_unauthorized_def)
  next
    case False
    with Reply show ?thesis
      by (simp add: api_post_def api_request_rejected response_error_interceptor_def
            is_unauthorized_def)
  qed
qed

lemma handlePhoneSubmit_failed:
  assumes "is_failure rep"
  shows "snd (handlePhoneSubmit (w, s) rep) = s\<lparr>loading := False\<rparr>"
proof -
  obtain w1 e where
    "api_post w ''/auth/telegram/start''
       [(''phone_number'', Some (CHR ''+'' # phoneNumber (formData s)))] rep = (w1, Inl e)"
    by (rule api_post_failed [OF assms])
  then show ?thesis by (simp add: handlePhoneSubmit_def)
qed

lemma handleCodeSubmit_failed:
  assumes "is_failure rep"
  shows "snd (handleCodeSubmit (w, s) rep) = s\<lparr>loading := False\<rparr>"
proof -
  obtain w1 e where
    "api_post w ''/auth/telegram/verify''
       [(''phone_number'', Some (CHR ''+'' # phoneNumber (formData s))),
        (''phone_code_hash'', phoneCodeHash s),
        (''code'', Some (code_input (formData s))),
        (''api_id'', getItem (localStorage w) ''telegram_api_id''),
        (''api_hash'', getItem (localStorage w) ''telegram_api_hash'')] rep = (w1, Inl e)"
    by (rule api_post_failed [OF assms])
  then show ?thesis by (simp add: handleCodeSubmit_def Let_def)
qed

lemma handlePasswordSubmit_failed:
  assumes "is_failure rep"
  shows "snd (handlePasswordSubmit (w, s) rep) = s\<lparr>loading := False\<rparr>"
proof -
  obtain w1 e where
    "api_post w ''/auth/telegram/2fa''
       [(''phone_number'', Some (CHR ''+'' # phoneNumber (formData s))),
        (''password'', Some (password (formData s)))] rep = (w1, Inl e)"
    by (rule api_post_failed [OF assms])
  then show ?thesis by (simp add: handlePasswordSubmit_def)
qed

lemma startAuth_failed_world:
  assumes "is_failure rep"
  shows "fst (startAuth w p rep) =
           fst (api_post w ''/auth/telegram/start'' [(''phone_number'', Some p)] rep)"
proof -
  obtain w1 e where
    "api_post w ''/auth/telegram/start'' [(''phone_number'', Some p)] rep = (w1, Inl e)"
    by (rule api_post_failed [OF assms])
  then show ?thesis by (simp add: startAuth_def)
qed

lemma verifyCode_failed_world:
  assumes "is_failure rep"
  shows "fst (verifyCode w d rep) =
           fst (api_post w ''/auth/telegram/verify'' (verify_fields d) rep)"
proof -
  obtain w1 e where
    "api_post w ''/auth/telegram/verify'' (verify_fields d) rep = (w1, Inl e)"
    by (rule api_post_failed [OF assms])
  then show ?thesis by (simp add: verifyCode_def)
qed

lemma verify2FA_failed_world:
  assumes "is_failure rep"
  shows "fst (verify2FA w d rep) =
     fst (api_post w ''/auth/telegram/2fa''
            [(''phone_number'', Some (pw_phone_number d)), (''password'', Some (pw_password d))] rep)"
proof -
  obtain w1 e where
    "api_post w ''/auth/telegram/2fa''
       [(''phone_number'', Some (pw_phone_number d)), (''password'', Some (pw_password d))] rep
     = (w1, Inl e)"
    by (rule api_post_failed [OF assms])
  then show ?thesis by (simp add: verify2FA_def)
qed

lemma handlePhoneSubmit_resolved:
  "is_2xx r \<Longrightarrow>
   snd (handlePhoneSubmit (w, s) (Reply r)) =
     (if body_status (response_data r) = Some ''code_sent''
      then s\<lparr>phoneCodeHash := body_phone_code_hash (response_data r), step := Code, loading := False\<rparr>
      else if body_requires_2fa (response_data r)
      then s\<lparr>step := Password, loading := False\<rparr>
      else s\<lparr>loading := False\<rparr>)"
  by (simp add: handlePhoneSubmit_def api_post_resolved)

lemma handleCodeSubmit_resolved:
  "is_2xx r \<Longrightarrow>
   snd (handleCodeSubmit (w, s) (Reply r)) =
     (if body_status (response_data r) = Some ''authenticated''
      then s\<lparr>step := Complete, loading := False\<rparr>
      else if body_requires_2fa (response_data r)
      then s\<lparr>step := Password, loading := False\<rparr>
      else s\<lparr>loading := False\<rparr>)"
  by (simp add: handleCodeSubmit_def api_post_resolved Let_def)

lemma handlePasswordSubmit_resolved:
  "is_2xx r \<Longrightarrow>
   snd (handlePasswordSubmit (w, s) (Reply r)) =
     (if body_status (response_data r) = Some ''authenticated''
      then s\<lparr>step := Complete, loading := False\<rparr>
      else s\<lparr>loading := False\<rparr>)"
  by (simp add: handlePasswordSubmit_def api_post_resolved)


section \<open>The claims\<close>

subsection \<open>C1: submissions and the validators\<close>

text \<open>
  Claim C1, as amended. The handlers of the wizard do not consult the validators. For
  every input, well-formed or not: the credentials handler sends no request, stores the
  two strings as entered and moves to the phone step; the phone, the code and the
  password handler each send exactly one request that carries the input as entered,
  and the step they leave depends on the reply alone: unchanged when the request
  fails, and set from the status and the second-factor flag of the body when it
  succeeds. The storage is changed by the gateway only, on a reply with status 401.
  No handler returns a validation error.
\<close>

theorem handlers_submit_without_validation:
  "handleApiSubmit (w, s) =
     (w\<lparr>localStorage := (localStorage w)(''telegram_api_id'' \<mapsto> apiId (formData s),
                                          ''telegram_api_hash'' \<mapsto> apiHash (formData s))\<rparr>,
      s\<lparr>step := Phone, loading := False\<rparr>) \<and>
   network (fst (handlePhoneSubmit (w, s) rep)) =
     network w @ [request_interceptor w (post_config ''/auth/telegram/start''
        [(''phone_number'', Some (CHR ''+'' # phoneNumber (formData s)))])] \<and>
   network (fst (handleCodeSubmit (w, s) rep)) =
     network w @ [request_interceptor w (post_config ''/auth/telegram/verify''
        [(''phone_number'', Some (CHR ''+'' # phoneNumber (formData s))),
         (''phone_code_hash'', phoneCodeHash s),
         (''code'', Some (code_input (formData s))),
         (''api_id'', getItem (localStorage w) ''telegram_api_id''),
         (''api_hash'', getItem (localStorage w) ''telegram_api_hash'')])] \<and>
   network (fst (handlePasswordSubmit (w, s) rep)) =
     network w @ [request_interceptor w (post_config ''/auth/telegram/2fa''
        [(''phone_number'', Some (CHR ''+'' # phoneNumber (formData s))),
         (''password'', Some (password (formData s)))])] \<and>
   snd (handlePhoneSubmit (w, s) rep) =
     (case rep of
        NoResponse \<Rightarrow> s\<lparr>loading := False\<rparr>
      | Reply r \<Rightarrow>
          if is_2xx r
          then if body_status (response_data r) = Some ''code_sent''
               then s\<lparr>phoneCodeHash := body_phone_code_hash (response_data r),
                      step := Code, loading := False\<rparr>
               else if body_requires_2fa (response_data r)
               then s\<lparr>step := Password, loading := False\<rparr>
               else s\<lparr>loading := False\<rparr>
          else s\<lparr>loading := False\<rparr>) \<and>
   snd (handleCodeSubmit (w, s) rep) =
     (case rep of
        NoResponse \<Rightarrow> s\<lparr>loading := False\<rparr>
      | Reply r \<Rightarrow>
          if is_2xx r
          then if body_status (response_data r) = Some ''authenticated''
               then s\<lparr>step := Complete, loading := False\<rparr>
               else if body_requires_2fa (response_data r)
               then s\<lparr>step := Password, loading := False\<rparr>
               else s\<lparr>loading := False\<rparr>
          else s\<lparr>loading := False\<rparr>) \<and>
   snd (handlePasswordSubmit (w, s) rep) =
     (case rep of
        NoResponse \<Rightarrow> s\<lparr>loading := False\<rparr>
      | Reply r \<Rightarrow>
          if is_2xx r
          then if body_status (response_data r) = Some ''authenticated''
               then s\<lparr>step := Complete, loading := False\<rparr>
               else s\<lparr>loading := False\<rparr>
          else s\<lparr>loading := False\<rparr>) \<and>
   localStorage (fst (handlePhoneSubmit (w, s) rep)) =
     (if is_unauthorized rep
      then removeItem (removeItem (removeItem (localStorage w) ''auth_token'')
             ''telegram_api_id'') ''telegram_api_hash''
      else localStorage w) \<and>
   localStorage (fst (handleCodeSubmit (w, s) rep)) =
     (if is_unauthorized rep
      then removeItem (removeItem (removeItem (localStorage w) ''auth_token'')
             ''telegram_api_id'') ''telegram_api_hash''
      else localStorage w) \<and>
   localStorage (fst (handlePasswordSubmit (w, s) rep)) =
     (if is_unauthorized rep
      then removeItem (removeItem (removeItem (localStorage w) ''auth_token'')
             ''telegram_api_id'') ''telegram_api_hash''
      else localStorage w)"
proof -
  have a: "handleApiSubmit (w, s) =
     (w\<lparr>localStorage := (localStorage w)(''telegram_api_id'' \<mapsto> apiId (formData s),
                                          ''telegram_api_hash'' \<mapsto> apiHash (formData s))\<rparr>,
      s\<lparr>step := Phone, loading := False\<rparr>)"
    by (simp add: handleApiSubmit_def setItem_def)
  have f: "is_failure NoResponse" and g: "\<not> is_2xx r \<Longrightarrow> is_failure (Reply r)" for r
    by (simp_all add: is_failure_def)
  have p: "snd (handlePhoneSubmit (w, s) rep) =
     (case rep of
        NoResponse \<Rightarrow> s\<lparr>loading := False\<rparr>
      | Reply r \<Rightarrow>
          if is_2xx r
          then if body_status (response_data r) = Some ''code_sent''
               then s\<lparr>phoneCodeHash := body_phone_code_hash (response_data r),
                      step := Code, loading := False\<rparr>
               else if body_requires_2fa (response_data r)
               then s\<lparr>step := Password, loading := False\<rparr>
               else s\<lparr>loading := False\<rparr>
          else s\<lparr>loading := False\<rparr>)"
    by (cases rep)
       (simp_all add: handlePhoneSubmit_failed [OF f] handlePhoneSubmit_failed [OF g]
          handlePhoneSubmit_resolved)
  have c: "snd (handleCodeSubmit (w, s) rep) =
     (case rep of
        NoResponse \<Rightarrow> s\<lparr>loading := False\<rparr>
      | Reply r \<Rightarrow>
          if is_2xx r
          then if body_status (response_data r) = Some ''authenticated''
               then s\<lparr>step := Complete, loading := False\<rparr>
               else if body_requires_2fa (response_data r)
               then s\<lparr>step := Password, loading := False\<rparr>
               else s\<lparr>loading := False\<rparr>
          else s\<lparr>loading := False\<rparr>)"
    by (cases rep)
       (simp_all add: handleCodeSubmit_failed [OF f] handleCodeSubmit_failed [OF g]
          handleCodeSubmit_resolved)
  have q: "snd (handlePasswordSubmit (w, s) rep) =
     (case rep of
        NoResponse \<Rightarrow> s\<lparr>loading := False\<rparr>
      | Reply r \<Rightarrow>
          if is_2xx r
          then if body_status (response_data r) = Some ''authenticated''
               then s\<lparr>step := Complete, loading := False\<rparr>
               else s\<lparr>loading := False\<rparr>
          else s\<lparr>loading := False\<rparr>)"
    by (cases rep)
       (simp_all add: handlePasswordSubmit_failed [OF f] handlePasswordSubmit_failed [OF g]
          handlePasswordSubmit_resolved)
  show ?thesis
    unfolding p c q
    by (simp only: a handlePhoneSubmit_world handleCodeSubmit_world handlePasswordSubmit_world
          api_post_network api_post_storage simp_thms)
qed

text \<open>At a phone number that the validator refuses, the reply \<^verbatim>\<open>code_sent\<close>
  moves the wizard to the code step.\<close>

theorem handlers_submit_witness:
  "\<not> validatePhoneNumber ''12ab'' \<and> \<not> validatePhoneNumber ''+12ab'' \<and>
   step (snd (handlePhoneSubmit
       (w_empty, setup_at Phone (form_of ''12345678'' ''not-a-hash'' ''12ab'' [] []))
       (Reply (reply_of 200 Map.empty ''code_sent'' None)))) = Code"
proof -
  have v: "\<not> validatePhoneNumber ''12ab'' \<and> \<not> validatePhoneNumber ''+12ab''"
    by (simp add: validatePhoneNumber_def regex_test_single regex_test_last class_plus)
  have ok: "is_2xx (reply_of 200 Map.empty ''code_sent'' None)"
    by (simp add: is_2xx_def reply_of_def)
  have st: "body_status (response_data (reply_of 200 Map.empty ''code_sent'' None)) = Some ''code_sent''"
    by (simp add: reply_of_def)
  from handlers_submit_without_validation
         [of w_empty "setup_at Phone (form_of ''12345678'' ''not-a-hash'' ''12ab'' [] [])"
             "Reply (reply_of 200 Map.empty ''code_sent'' None)"]
  have "snd (handlePhoneSubmit
       (w_empty, setup_at Phone (form_of ''12345678'' ''not-a-hash'' ''12ab'' [] []))
       (Reply (reply_of 200 Map.empty ''code_sent'' None))) =
     (setup_at Phone (form_of ''12345678'' ''not-a-hash'' ''12ab'' [] []))
       \<lparr>phoneCodeHash := body_phone_code_hash (response_data (reply_of 200 Map.empty ''code_sent'' None)),
        step := Code, loading := False\<rparr>"
    by (simp add: ok st)
  then have "step (snd (handlePhoneSubmit
       (w_empty, setup_at Phone (form_of ''12345678'' ''not-a-hash'' ''12ab'' [] []))
       (Reply (reply_of 200 Map.empty ''code_sent'' None)))) = Code"
    by simp
  with v show ?thesis by blast
qed

text \<open>
  The claim as written fails: credentials whose hash is not 32 hexadecimal characters
  are stored and the wizard advances, and a phone number that the validator refuses,
  with or without the \<open>+\<close> the handler puts in front, is sent to the backend.
\<close>

theorem unvalidated_submit_counterexample:
  "\<not> validateApiCredentials ''12345678'' ''not-a-hash'' \<and>
   getItem (localStorage w_empty) ''telegram_api_hash'' = None \<and>
   getItem (localStorage (fst (handleApiSubmit
       (w_empty, setup_at Api (form_of ''12345678'' ''not-a-hash'' [] [] [])))))
     ''telegram_api_hash'' = Some ''not-a-hash'' \<and>
   step (snd (handleApiSubmit
       (w_empty, setup_at Api (form_of ''12345678'' ''not-a-hash'' [] [] [])))) = Phone \<and>
   \<not> validatePhoneNumber ''12ab'' \<and> \<not> validatePhoneNumber ''+12ab'' \<and>
   network (fst (handlePhoneSubmit
       (w_empty, setup_at Phone (form_of ''12345678'' ''not-a-hash'' ''12ab'' [] [])) NoResponse)) =
     [\<lparr>req_method = ''POST'', req_url = ''/auth/telegram/start'',
       req_body = [(''phone_number'', Some ''+12ab'')], req_authorization = None\<rparr>]"
proof -
  have a: "\<not> validateApiCredentials ''12345678'' ''not-a-hash''"
    by (simp add: validateApiCredentials_def regex_test_last)
  have b: "\<not> validatePhoneNumber ''12ab'' \<and> \<not> validatePhoneNumber ''+12ab''"
    by (simp add: validatePhoneNumber_def regex_test_single regex_test_last class_plus)
  have c: "getItem (localStorage w_empty) ''telegram_api_hash'' = None"
    by (simp add: w_empty_def getItem_def)
  have d: "getItem (localStorage (fst (handleApiSubmit
       (w_empty, setup_at Api (form_of ''12345678'' ''not-a-hash'' [] [] [])))))
     ''telegram_api_hash'' = Some ''not-a-hash'' \<and>
   step (snd (handleApiSubmit
       (w_empty, setup_at Api (form_of ''12345678'' ''not-a-hash'' [] [] [])))) = Phone"
    by (simp add: handleApiSubmit_def setItem_get setup_at_def form_of_def)
  have e: "network (fst (handlePhoneSubmit
       (w_empty, setup_at Phone (form_of ''12345678'' ''not-a-hash'' ''12ab'' [] [])) NoResponse)) =
     [\<lparr>req_method = ''POST'', req_url = ''/auth/telegram/start'',
       req_body = [(''phone_number'', Some ''+12ab'')], req_authorization = None\<rparr>]"
    by (simp add: handlePhoneSubmit_def api_post_def api_request_no_response
          request_interceptor_def w_empty_def getItem_def truthy_string_def
          setup_at_def form_of_def)
  from a b c d e show ?thesis by blast
qed

subsection \<open>C2: a reply with status 401\<close>

text \<open>
  Claim C2. For every request sent through the gateway, whatever its method, path and
  body: when the reply has status 401, the token and both API credentials are gone from
  the storage and the browser is sent to \<^verbatim>\<open>/setup\<close>, so that the wizard is at
  its first step, \<open>Api\<close>, once that page has loaded. In particular this holds for
  each handler of the wizard that sends a request, from whatever step.
\<close>

theorem unauthorized_clears_session_and_restarts:
  assumes "http_status r = 401"
  shows "getItem (localStorage (fst (api_request w config (Reply r)))) ''auth_token'' = None \<and>
         getItem (localStorage (fst (api_request w config (Reply r)))) ''telegram_api_id'' = None \<and>
         getItem (localStorage (fst (api_request w config (Reply r)))) ''telegram_api_hash'' = None \<and>
         location_href (fst (api_request w config (Reply r))) = Some ''/setup'' \<and>
         step (snd (page_after (fst (api_request w config (Reply r)), s))) = Api \<and>
         step (snd (page_after (handlePhoneSubmit (w, s) (Reply r)))) = Api \<and>
         step (snd (page_after (handleCodeSubmit (w, s) (Reply r)))) = Api \<and>
         step (snd (page_after (handlePasswordSubmit (w, s) (Reply r)))) = Api"
  using assms
  by (simp add: api_request_rejected not_2xx_401 interceptor_401 removeItem_get
        page_after_def Setup_initial_def handlePhoneSubmit_def handleCodeSubmit_def
        handlePasswordSubmit_def api_post_def Let_def)

theorem unauthorized_witness:
  "http_status (reply_of 401 Map.empty ''error'' None) = 401 \<and>
   getItem (localStorage (fst (api_request w_session (post_config ''/keywords'' [])
       (Reply (reply_of 401 Map.empty ''error'' None))))) ''auth_token'' = None \<and>
   getItem (localStorage (fst (api_request w_session (post_config ''/keywords'' [])
       (Reply (reply_of 401 Map.empty ''error'' None))))) ''telegram_api_id'' = None \<and>
   getItem (localStorage (fst (api_request w_session (post_config ''/keywords'' [])
       (Reply (reply_of 401 Map.empty ''error'' None))))) ''telegram_api_hash'' = None \<and>
   step (snd (page_after (handleCodeSubmit (w_session, setup_at Code (form_of [] [] [] [] []))
       (Reply (reply_of 401 Map.empty ''error'' None))))) = Api"
proof -
  have h: "http_status (reply_of 401 Map.empty ''error'' None) = 401"
    by (simp add: reply_of_def)
  show ?thesis
    using unauthorized_clears_session_and_restarts [OF h, of w_session "post_config ''/keywords'' []"
            "setup_at Code (form_of [] [] [] [] [])"] h
    by simp
qed

subsection \<open>C3: a reply that reports authenticated\<close>

text \<open>
  Claim C3, as amended. When a successful reply reports the status
  \<^verbatim>\<open>authenticated\<close>, the code handler and the password handler move the wizard to
  \<open>Complete\<close> at once. The phone handler has no branch for that status: it moves to
  \<open>Password\<close> when the body asks for the second factor and leaves the step
  unchanged otherwise.
\<close>

theorem authenticated_reply_transitions:
  assumes "is_2xx r" and "body_status (response_data r) = Some ''authenticated''"
  shows "step (snd (handleCodeSubmit (w, s) (Reply r))) = Complete \<and>
         step (snd (handlePasswordSubmit (w, s) (Reply r))) = Complete \<and>
         step (snd (handlePhoneSubmit (w, s) (Reply r))) =
           (if body_requires_2fa (response_data r) then Password else step s)"
  using assms
  by (simp add: handlePhoneSubmit_def handleCodeSubmit_def
        handlePasswordSubmit_def api_post_def Let_def api_request_resolved)

theorem authenticated_reply_witness:
  "is_2xx (reply_of 200 Map.empty ''authenticated'' (Some 7)) \<and>
   body_status (response_data (reply_of 200 Map.empty ''authenticated'' (Some 7))) = Some ''authenticated'' \<and>
   step (snd (handleCodeSubmit (w_empty, setup_at Code (form_of [] [] ''821012345678'' ''12345'' []))
       (Reply (reply_of 200 Map.empty ''authenticated'' (Some 7))))) = Complete \<and>
   step (snd (handlePhoneSubmit (w_empty, setup_at Phone (form_of [] [] ''821012345678'' [] []))
       (Reply (reply_of 200 Map.empty ''authenticated'' (Some 7))))) = Phone"
proof -
  have a: "is_2xx (reply_of 200 Map.empty ''authenticated'' (Some 7))"
    by (simp add: is_2xx_def reply_of_def)
  have b: "body_status (response_data (reply_of 200 Map.empty ''authenticated'' (Some 7))) = Some ''authenticated''"
    by (simp add: reply_of_def)
  have c: "\<not> body_requires_2fa (response_data (reply_of 200 Map.empty ''authenticated'' (Some 7)))"
    by (simp add: reply_of_def)
  have st: "step (setup_at x fd) = x" for x fd
    by (simp add: setup_at_def)
  show ?thesis
    using authenticated_reply_transitions [OF a b, of w_empty
            "setup_at Code (form_of [] [] ''821012345678'' ''12345'' [])"]
          authenticated_reply_transitions [OF a b, of w_empty
            "setup_at Phone (form_of [] [] ''821012345678'' [] [])"] a b c st
    by simp
qed

text \<open>
  The claim as written fails at the phone step: the reply reports
  \<^verbatim>\<open>authenticated\<close> and the wizard stays at \<open>Phone\<close>.
\<close>

theorem phone_step_authenticated_counterexample:
  "is_2xx (reply_of 200 Map.empty ''authenticated'' (Some 7)) \<and>
   body_status (response_data (reply_of 200 Map.empty ''authenticated'' (Some 7))) = Some ''authenticated'' \<and>
   step (setup_at Phone (form_of [] [] ''821012345678'' [] [])) = Phone \<and>
   step (snd (handlePhoneSubmit (w_empty, setup_at Phone (form_of [] [] ''821012345678'' [] []))
       (Reply (reply_of 200 Map.empty ''authenticated'' (Some 7))))) = Phone"
  by (simp add: handlePhoneSubmit_def api_post_def api_request_def Let_def is_2xx_def
        reply_of_def setup_at_def)

subsection \<open>C4: a failed request of the handshake\<close>

text \<open>
  Claim C4. When a request of the handshake fails (no response, or a status outside
  200 to 299), the state machine does not advance: the phone, the code and the
  password handler each leave the step, the handshake identifier and the form as they
  were, and a browser without a token is still without one afterwards; the same holds
  for the token after a failed \<open>startAuth\<close>, \<open>verifyCode\<close> or \<open>verify2FA\<close> of
  the service. Unless the status is 401, the storage is untouched and no navigation is
  requested, so a wizard at \<open>Code\<close> remains at \<open>Code\<close>.
\<close>

theorem failed_request_keeps_step:
  assumes "is_failure rep"
  shows "step (snd (handleCodeSubmit (w, s) rep)) = step s \<and>
         phoneCodeHash (snd (handleCodeSubmit (w, s) rep)) = phoneCodeHash s \<and>
         formData (snd (handleCodeSubmit (w, s) rep)) = formData s \<and>
         (\<not> isAuthenticated w \<longrightarrow> \<not> isAuthenticated (fst (handleCodeSubmit (w, s) rep))) \<and>
         (\<not> isAuthenticated w \<longrightarrow> \<not> isAuthenticated (fst (verifyCode w d rep))) \<and>
         (\<not> is_unauthorized rep \<longrightarrow>
            localStorage (fst (handleCodeSubmit (w, s) rep)) = localStorage w \<and>
            location_href (fst (handleCodeSubmit (w, s) rep)) = location_href w) \<and>
         step (snd (handlePhoneSubmit (w, s) rep)) = step s \<and>
         phoneCodeHash (snd (handlePhoneSubmit (w, s) rep)) = phoneCodeHash s \<and>
         formData (snd (handlePhoneSubmit (w, s) rep)) = formData s \<and>
         step (snd (handlePasswordSubmit (w, s) rep)) = step s \<and>
         phoneCodeHash (snd (handlePasswordSubmit (w, s) rep)) = phoneCodeHash s \<and>
         formData (snd (handlePasswordSubmit (w, s) rep)) = formData s \<and>
         (\<not> isAuthenticated w \<longrightarrow>
            \<not> isAuthenticated (fst (handlePhoneSubmit (w, s) rep)) \<and>
            \<not> isAuthenticated (fst (handlePasswordSubmit (w, s) rep)) \<and>
            \<not> isAuthenticated (fst (startAuth w p rep)) \<and>
            \<not> isAuthenticated (fst (verify2FA w d2 rep))) \<and>
         (\<not> is_unauthorized rep \<longrightarrow>
            localStorage (fst (handlePhoneSubmit (w, s) rep)) = localStorage w \<and>
            location_href (fst (handlePhoneSubmit (w, s) rep)) = location_href w \<and>
            localStorage (fst (handlePasswordSubmit (w, s) rep)) = localStorage w \<and>
            location_href (fst (handlePasswordSubmit (w, s) rep)) = location_href w)"
proof -
  have states:
    "snd (handleCodeSubmit (w, s) rep) = s\<lparr>loading := False\<rparr>"
    "snd (handlePhoneSubmit (w, s) rep) = s\<lparr>loading := False\<rparr>"
    "snd (handlePasswordSubmit (w, s) rep) = s\<lparr>loading := False\<rparr>"
    by (rule handleCodeSubmit_failed [OF assms], rule handlePhoneSubmit_failed [OF assms],
        rule handlePasswordSubmit_failed [OF assms])
  have session: "\<not> isAuthenticated (fst (api_post w url json rep))"
    if "\<not> isAuthenticated w" for url json
    by (rule api_post_failure_session [OF assms that])
  have untouched:
    "localStorage (fst (api_post w url json rep)) = localStorage w \<and>
     location_href (fst (api_post w url json rep)) = location_href w"
    if "\<not> is_unauthorized rep" for url json
    by (rule api_post_failure_untouched [OF assms that])
  show ?thesis
    unfolding states handlePhoneSubmit_world handleCodeSubmit_world handlePasswordSubmit_world
      startAuth_failed_world [OF assms] verifyCode_failed_world [OF assms]
      verify2FA_failed_world [OF assms]
    using session untouched by simp
qed

theorem failed_request_witness:
  "is_failure (Reply (reply_of 400 Map.empty ''error'' None)) \<and>
   \<not> isAuthenticated w_empty \<and>
   \<not> is_unauthorized (Reply (reply_of 400 Map.empty ''error'' None)) \<and>
   step (snd (handleCodeSubmit (w_empty, setup_at Code (form_of [] [] ''821012345678'' ''00000'' []))
               (Reply (reply_of 400 Map.empty ''error'' None)))) = Code \<and>
   \<not> isAuthenticated (fst (handleCodeSubmit (w_empty, setup_at Code (form_of [] [] ''821012345678'' ''00000'' []))
               (Reply (reply_of 400 Map.empty ''error'' None)))) \<and>
   location_href (fst (handleCodeSubmit (w_empty, setup_at Code (form_of [] [] ''821012345678'' ''00000'' []))
               (Reply (reply_of 400 Map.empty ''error'' None)))) = None \<and>
   step (snd (handlePhoneSubmit (w_empty, setup_at Phone (form_of [] [] ''821012345678'' [] []))
               (Reply (reply_of 400 Map.empty ''error'' None)))) = Phone \<and>
   step (snd (handlePasswordSubmit (w_empty, setup_at Password (form_of [] [] ''821012345678'' [] ''pw''))
               (Reply (reply_of 400 Map.empty ''error'' None)))) = Password"
proof -
  have f: "is_failure (Reply (reply_of 400 Map.empty ''error'' None))"
    by (simp add: is_failure_def is_2xx_def reply_of_def)
  have n: "\<not> isAuthenticated w_empty"
    by (simp add: isAuthenticated_def w_empty_def getItem_def truthy_string_def)
  have u: "\<not> is_unauthorized (Reply (reply_of 400 Map.empty ''error'' None))"
    by (simp add: is_unauthorized_def reply_of_def)
  have l: "location_href w_empty = None" and st: "step (setup_at x fd) = x" for x fd
    by (simp_all add: w_empty_def setup_at_def)
  show ?thesis
    using failed_request_keeps_step [OF f, of w_empty
            "setup_at Code (form_of [] [] ''821012345678'' ''00000'' [])"]
          failed_request_keeps_step [OF f, of w_empty
            "setup_at Phone (form_of [] [] ''821012345678'' [] [])"]
          failed_request_keeps_step [OF f, of w_empty
            "setup_at Password (form_of [] [] ''821012345678'' [] ''pw'')"]
          f n u l st
    by simp
qed

subsection \<open>C5 and C6: the formats accepted by the validators\<close>

text \<open>
  Claim C5. For every string, the phone validator returns true exactly when the string
  is a \<open>+\<close>, then a digit from 1 to 9, then 10 to 14 further digits: the strings matched
  by \<^verbatim>\<open>^\+[1-9]\d{10,14}$\<close>, 11 to 15 digits in total.
\<close>

theorem validatePhoneNumber_iff: "validatePhoneNumber s \<longleftrightarrow> phone_spec s"
proof (cases s)
  case Nil
  then show ?thesis
    by (simp add: validatePhoneNumber_def phone_spec_def regex_test_single)
next
  case outer: (Cons p rest)
  show ?thesis
  proof (cases rest)
    case Nil
    with outer show ?thesis
      by (simp add: validatePhoneNumber_def phone_spec_def regex_test_single)
  next
    case (Cons d ds)
    have digits: "list_all (in_class [(CHR ''0'', CHR ''9'')]) ds = list_all is_digit ds"
      by (rule list_all_pred_eq) (rule class_digit)
    from outer Cons show ?thesis
      unfolding validatePhoneNumber_def phone_spec_def Let_def
      by (simp only: regex_test_single regex_test_last list.case option.case
            class_plus class_nonzero_digit digits) auto
  qed
qed

text \<open>
  Claim C6. For every pair of strings, \<open>validateApiCredentials\<close> returns true exactly
  when the id is a non-empty string of digits and the hash is 32 characters long, each
  of them a digit or a letter from a to f in lower case.
\<close>

theorem validateApiCredentials_iff:
  "validateApiCredentials i h \<longleftrightarrow> api_credentials_spec i h"
proof -
  have d: "list_all (in_class [(CHR ''0'', CHR ''9'')]) i = list_all is_digit i"
    by (rule list_all_pred_eq) (rule class_digit)
  have hex: "list_all (in_class [(CHR ''a'', CHR ''f''), (CHR ''0'', CHR ''9'')]) h
             = list_all is_lower_hex h"
    by (rule list_all_pred_eq) (rule class_lower_hex)
  show ?thesis
    unfolding validateApiCredentials_def api_credentials_spec_def Let_def
    by (simp only: regex_test_last option.case d hex) (cases i; auto)
qed

subsection \<open>C7, C8 and C9: clearing the store\<close>

text \<open>
  Claim C7. After \<open>clearAuthData\<close>, the token, the API id and the API hash are all
  absent from the storage: \<open>isAuthenticated\<close> is false and \<open>getApiCredentials\<close>
  returns no id and no hash, from every starting state.
\<close>

theorem clearAuthData_removes_all:
  "getItem (localStorage (clearAuthData w)) ''auth_token'' = None \<and>
   getItem (localStorage (clearAuthData w)) ''telegram_api_id'' = None \<and>
   getItem (localStorage (clearAuthData w)) ''telegram_api_hash'' = None \<and>
   \<not> isAuthenticated (clearAuthData w) \<and>
   getApiCredentials (clearAuthData w) = (None, None)"
  by (simp add: clearAuthData_def isAuthenticated_def getApiCredentials_def
        removeItem_get truthy_string_def)

text \<open>
  Claim C8, as amended. When the logout request succeeds (status 200 to 299), the
  store is cleared as by \<open>clearAuthData\<close>, whatever the body and the headers of the
  response. When the request fails, the cleanup is not reached: the storage is left as
  it was, except that on status 401 the interceptor has removed the token and both
  API credentials.
\<close>

theorem logout_clears_when_request_succeeds:
  "(is_2xx r \<longrightarrow>
      localStorage (fst (logout w (Reply r))) = localStorage (clearAuthData w) \<and>
      \<not> isAuthenticated (fst (logout w (Reply r)))) \<and>
   (is_failure rep \<and> \<not> is_unauthorized rep \<longrightarrow>
      localStorage (fst (logout w rep)) = localStorage w) \<and>
   (is_unauthorized rep' \<longrightarrow>
      getItem (localStorage (fst (logout w rep'))) ''auth_token'' = None \<and>
      getItem (localStorage (fst (logout w rep'))) ''telegram_api_id'' = None \<and>
      getItem (localStorage (fst (logout w rep'))) ''telegram_api_hash'' = None)"
proof -
  have a: "is_2xx r \<longrightarrow>
      localStorage (fst (logout w (Reply r))) = localStorage (clearAuthData w) \<and>
      \<not> isAuthenticated (fst (logout w (Reply r)))"
    by (simp add: logout_def api_post_def api_request_resolved clearAuthData_def
          isAuthenticated_def removeItem_get truthy_string_def)
  have b: "is_failure rep \<and> \<not> is_unauthorized rep \<longrightarrow>
      localStorage (fst (logout w rep)) = localStorage w"
    by (cases rep)
       (auto simp: logout_def api_post_def api_request_no_response api_request_rejected
          interceptor_other is_failure_def is_unauthorized_def)
  have c: "is_unauthorized rep' \<longrightarrow>
      getItem (localStorage (fst (logout w rep'))) ''auth_token'' = None \<and>
      getItem (localStorage (fst (logout w rep'))) ''telegram_api_id'' = None \<and>
      getItem (localStorage (fst (logout w rep'))) ''telegram_api_hash'' = None"
    by (cases rep')
       (auto simp: logout_def api_post_def api_request_rejected not_2xx_401 interceptor_401
          removeItem_get is_unauthorized_def)
  from a b c show ?thesis by blast
qed

theorem logout_clears_witness:
  "is_2xx (reply_of 204 Map.empty [] None) \<and>
   getItem (localStorage (fst (logout w_session (Reply (reply_of 204 Map.empty [] None)))))
     ''auth_token'' = None \<and>
   is_failure NoResponse \<and> \<not> is_unauthorized NoResponse \<and>
   getItem (localStorage (fst (logout w_session NoResponse))) ''auth_token'' = Some ''tok'' \<and>
   is_unauthorized (Reply (reply_of 401 Map.empty ''error'' None)) \<and>
   getItem (localStorage (fst (logout w_session (Reply (reply_of 401 Map.empty ''error'' None)))))
     ''auth_token'' = None"
proof -
  have a: "is_2xx (reply_of 204 Map.empty [] None)"
    by (simp add: is_2xx_def reply_of_def)
  have b: "is_failure NoResponse \<and> \<not> is_unauthorized NoResponse"
    by (simp add: is_failure_def is_unauthorized_def)
  have u: "is_unauthorized (Reply (reply_of 401 Map.empty ''error'' None))"
    by (simp add: is_unauthorized_def reply_of_def)
  have c: "getItem (localStorage w_session) ''auth_token'' = Some ''tok''"
    by (simp add: w_session_def getItem_def)
  have d: "getItem (localStorage (clearAuthData w_session)) ''auth_token'' = None"
    by (simp add: clearAuthData_def removeItem_get)
  note t = logout_clears_when_request_succeeds
             [of "reply_of 204 Map.empty [] None" w_session NoResponse
                 "Reply (reply_of 401 Map.empty ''error'' None)"]
  from t a have 1: "localStorage (fst (logout w_session (Reply (reply_of 204 Map.empty [] None)))) =
      localStorage (clearAuthData w_session)"
    by blast
  from t b have 2: "localStorage (fst (logout w_session NoResponse)) = localStorage w_session"
    by blast
  from t u have 3: "getItem (localStorage (fst (logout w_session
      (Reply (reply_of 401 Map.empty ''error'' None))))) ''auth_token'' = None"
    by blast
  from a b u c d 3 show ?thesis
    unfolding 1 2 by blast
qed

text \<open>
  The claim as written fails: the backend answers the logout request with status 500
  and the token is still stored afterwards.
\<close>

theorem logout_keeps_session_counterexample:
  "\<not> is_2xx (reply_of 500 Map.empty ''error'' None) \<and>
   getItem (localStorage w_session) ''auth_token'' = Some ''tok'' \<and>
   getItem (localStorage (fst (logout w_session (Reply (reply_of 500 Map.empty ''error'' None)))))
     ''auth_token'' = Some ''tok'' \<and>
   isAuthenticated (fst (logout w_session (Reply (reply_of 500 Map.empty ''error'' None))))"
  by (simp add: logout_def api_post_def api_request_def Let_def is_2xx_def reply_of_def
        response_error_interceptor_def w_session_def getItem_def isAuthenticated_def
        truthy_string_def)

text \<open>
  Claim C9. Clearing is idempotent: from every starting state, clearing twice leaves
  the browser in the state that clearing once leaves it in, and in that state the
  token, the API id and the API hash are absent.
\<close>

theorem clearAuthData_idempotent:
  "clearAuthData (clearAuthData w) = clearAuthData w \<and>
   getItem (localStorage (clearAuthData (clearAuthData w))) ''auth_token'' = None \<and>
   getItem (localStorage (clearAuthData (clearAuthData w))) ''telegram_api_id'' = None \<and>
   getItem (localStorage (clearAuthData (clearAuthData w))) ''telegram_api_hash'' = None"
proof -
  have i: "clearAuthData (clearAuthData w) = clearAuthData w"
    by (simp add: clearAuthData_def removeItem_def)
  show ?thesis
    unfolding i by (simp add: clearAuthData_def removeItem_get)
qed

subsection \<open>C10: when verifyCode stores a token\<close>

text \<open>
  Claim C10, as amended. For a response that \<open>verifyCode\<close> receives (status 200
  to 299): when the payload reports \<^verbatim>\<open>authenticated\<close>, carries a user id that is
  not zero, and the response has a non-empty Authorization header, the header without
  its first \<^verbatim>\<open>"Bearer "\<close> is stored as the token; in every other such case the
  storage is left as it was. When the request fails, \<open>verifyCode\<close> writes nothing:
  the browser is as the gateway left it, which is unchanged unless the status was 401;
  on status 401 the interceptor has removed the token and both API credentials.
\<close>

theorem verifyCode_token_persistence:
  "(is_2xx r \<and> status (body_data (response_data r)) = ''authenticated'' \<and>
    truthy_number (user_id (body_data (response_data r))) \<and>
    headers r ''authorization'' = Some t \<and> t \<noteq> [] \<longrightarrow>
      localStorage (fst (verifyCode w d (Reply r))) =
        (localStorage w)(''auth_token'' \<mapsto> replace_first ''Bearer '' [] t)) \<and>
   (is_2xx r' \<and>
    \<not> (status (body_data (response_data r')) = ''authenticated'' \<and>
       truthy_number (user_id (body_data (response_data r'))) \<and>
       truthy_string (headers r' ''authorization'')) \<longrightarrow>
      localStorage (fst (verifyCode w d (Reply r'))) = localStorage w) \<and>
   (is_failure rep \<longrightarrow>
      fst (verifyCode w d rep) = fst (api_post w ''/auth/telegram/verify'' (verify_fields d) rep) \<and>
      (\<not> is_unauthorized rep \<longrightarrow> localStorage (fst (verifyCode w d rep)) = localStorage w)) \<and>
   (is_unauthorized rep' \<longrightarrow>
      localStorage (fst (verifyCode w d rep')) =
        removeItem (removeItem (removeItem (localStorage w) ''auth_token'')
          ''telegram_api_id'') ''telegram_api_hash'' \<and>
      getItem (localStorage (fst (verifyCode w d rep'))) ''auth_token'' = None)"
proof -
  have a: "is_2xx r \<and> status (body_data (response_data r)) = ''authenticated'' \<and>
    truthy_number (user_id (body_data (response_data r))) \<and>
    headers r ''authorization'' = Some t \<and> t \<noteq> [] \<longrightarrow>
      localStorage (fst (verifyCode w d (Reply r))) =
        (localStorage w)(''auth_token'' \<mapsto> replace_first ''Bearer '' [] t)"
    by (simp add: verifyCode_def api_post_def api_request_resolved Let_def store_token_def
          setItem_def)
  have b: "is_2xx r' \<and>
    \<not> (status (body_data (response_data r')) = ''authenticated'' \<and>
       truthy_number (user_id (body_data (response_data r'))) \<and>
       truthy_string (headers r' ''authorization'')) \<longrightarrow>
      localStorage (fst (verifyCode w d (Reply r'))) = localStorage w"
    by (auto simp: verifyCode_def api_post_def api_request_resolved Let_def store_token_def
          truthy_string_def split: option.splits)
  have c: "is_failure rep \<longrightarrow>
      fst (verifyCode w d rep) = fst (api_post w ''/auth/telegram/verify'' (verify_fields d) rep) \<and>
      (\<not> is_unauthorized rep \<longrightarrow> localStorage (fst (verifyCode w d rep)) = localStorage w)"
    by (cases rep)
       (auto simp: verifyCode_def api_post_def api_request_no_response api_request_rejected
          interceptor_other is_failure_def is_unauthorized_def)
  have e: "is_unauthorized rep' \<longrightarrow>
      localStorage (fst (verifyCode w d rep')) =
        removeItem (removeItem (removeItem (localStorage w) ''auth_token'')
          ''telegram_api_id'') ''telegram_api_hash'' \<and>
      getItem (localStorage (fst (verifyCode w d rep'))) ''auth_token'' = None"
    by (cases rep')
       (auto simp: verifyCode_def api_post_def api_request_rejected not_2xx_401 interceptor_401
          removeItem_get is_unauthorized_def)
  from a b c e show ?thesis by blast
qed

theorem verifyCode_token_witness:
  "is_2xx (reply_of 200 [''authorization'' \<mapsto> ''Bearer abc''] ''authenticated'' (Some 7)) \<and>
   getItem (localStorage (fst (verifyCode w_empty
       \<lparr>phone_number = ''+821012345678'', phone_code_hash = ''h1'', code = ''12345'',
        api_id = None, api_hash = None\<rparr>
       (Reply (reply_of 200 [''authorization'' \<mapsto> ''Bearer abc''] ''authenticated'' (Some 7))))))
     ''auth_token'' = Some ''abc'' \<and>
   is_2xx (reply_of 200 [''authorization'' \<mapsto> ''Bearer abc''] ''authenticated'' None) \<and>
   getItem (localStorage (fst (verifyCode w_empty
       \<lparr>phone_number = ''+821012345678'', phone_code_hash = ''h1'', code = ''12345'',
        api_id = None, api_hash = None\<rparr>
       (Reply (reply_of 200 [''authorization'' \<mapsto> ''Bearer abc''] ''authenticated'' None)))))
     ''auth_token'' = None \<and>
   is_failure (Reply (reply_of 400 Map.empty ''error'' None)) \<and>
   \<not> is_unauthorized (Reply (reply_of 400 Map.empty ''error'' None)) \<and>
   getItem (localStorage (fst (verifyCode w_empty
       \<lparr>phone_number = ''+821012345678'', phone_code_hash = ''h1'', code = ''12345'',
        api_id = None, api_hash = None\<rparr>
       (Reply (reply_of 400 Map.empty ''error'' None)))))
     ''auth_token'' = None \<and>
   is_unauthorized (Reply (reply_of 401 Map.empty ''error'' None)) \<and>
   getItem (localStorage (fst (verifyCode w_empty
       \<lparr>phone_number = ''+821012345678'', phone_code_hash = ''h1'', code = ''12345'',
        api_id = None, api_hash = None\<rparr>
       (Reply (reply_of 401 Map.empty ''error'' None)))))
     ''auth_token'' = None"
proof -
  let ?ok = "reply_of 200 [''authorization'' \<mapsto> ''Bearer abc''] ''authenticated'' (Some 7)"
  let ?nouid = "reply_of 200 [''authorization'' \<mapsto> ''Bearer abc''] ''authenticated'' None"
  let ?bad = "Reply (reply_of 400 Map.empty ''error'' None)"
  let ?exp = "Reply (reply_of 401 Map.empty ''error'' None)"
  let ?d = "\<lparr>phone_number = ''+821012345678'', phone_code_hash = ''h1'', code = ''12345'',
        api_id = None, api_hash = None\<rparr>"
  have a: "is_2xx ?ok \<and> status (body_data (response_data ?ok)) = ''authenticated'' \<and>
    truthy_number (user_id (body_data (response_data ?ok))) \<and>
    headers ?ok ''authorization'' = Some ''Bearer abc'' \<and> ''Bearer abc'' \<noteq> []"
    by (simp add: is_2xx_def reply_of_def payload_of_def truthy_number_def)
  have b: "is_2xx ?nouid \<and>
    \<not> (status (body_data (response_data ?nouid)) = ''authenticated'' \<and>
       truthy_number (user_id (body_data (response_data ?nouid))) \<and>
       truthy_string (headers ?nouid ''authorization''))"
    by (simp add: is_2xx_def reply_of_def payload_of_def truthy_number_def)
  have c: "is_failure ?bad \<and> \<not> is_unauthorized ?bad"
    by (simp add: is_failure_def is_unauthorized_def is_2xx_def reply_of_def)
  have u: "is_unauthorized ?exp"
    by (simp add: is_unauthorized_def reply_of_def)
  have e: "replace_first ''Bearer '' [] ''Bearer abc'' = ''abc''"
    by simp
  have f: "localStorage w_empty = Map.empty"
    by (simp add: w_empty_def)
  note t = verifyCode_token_persistence [of ?ok "''Bearer abc''" w_empty ?d ?nouid ?bad ?exp]
  from t a have 1: "localStorage (fst (verifyCode w_empty ?d (Reply ?ok))) =
      (localStorage w_empty)(''auth_token'' \<mapsto> replace_first ''Bearer '' [] ''Bearer abc'')"
    by blast
  from t b have 2: "localStorage (fst (verifyCode w_empty ?d (Reply ?nouid))) = localStorage w_empty"
    by blast
  from t c have 3: "localStorage (fst (verifyCode w_empty ?d ?bad)) = localStorage w_empty"
    by blast
  from t u have g4: "getItem (localStorage (fst (verifyCode w_empty ?d ?exp))) ''auth_token'' = None"
    by blast
  have g1: "getItem (localStorage (fst (verifyCode w_empty ?d (Reply ?ok)))) ''auth_token'' = Some ''abc''"
    unfolding 1 e f by (simp add: getItem_def)
  have g2: "getItem (localStorage (fst (verifyCode w_empty ?d (Reply ?nouid)))) ''auth_token'' = None"
    unfolding 2 f by (simp add: getItem_def)
  have g3: "getItem (localStorage (fst (verifyCode w_empty ?d ?bad))) ''auth_token'' = None"
    unfolding 3 f by (simp add: getItem_def)
  from a b c u g1 g2 g3 g4 show ?thesis by blast
qed

text \<open>
  The claim as written fails: a token is stored, the verification request is answered
  with status 401, a case other than the three-fold condition, and the stored token is
  gone afterwards.
\<close>

theorem verifyCode_unauthorized_counterexample:
  "status (body_data (response_data (reply_of 401 Map.empty ''error'' None))) \<noteq> ''authenticated'' \<and>
   getItem (localStorage w_session) ''auth_token'' = Some ''tok'' \<and>
   getItem (localStorage (fst (verifyCode w_session
       \<lparr>phone_number = ''+821012345678'', phone_code_hash = ''h1'', code = ''12345'',
        api_id = Some ''12345678'', api_hash = Some ''aaaaaaaaaaaaaaaaaaaaaaaaaaaaaaaa''\<rparr>
       (Reply (reply_of 401 Map.empty ''error'' None)))))
     ''auth_token'' = None"
  by (simp add: verifyCode_def api_post_def api_request_def Let_def is_2xx_def reply_of_def
        payload_of_def response_error_interceptor_def w_session_def getItem_def removeItem_def)

end
